theory Spec2Isabelle
  imports Main "HOL-Library.AList"
begin

section \<open>The front end: \<open>src/frontend/app/page.tsx\<close>\<close>

subsection \<open>Data\<close>

text \<open>\<open>type Phase = "upload" | "processing" | "result"\<close>\<close>

datatype Phase = Upload | Processing | Result

text \<open>\<open>interface ProcessingStep { label: string; duration: number }\<close>\<close>

record ProcessingStep =
  label :: string
  duration :: nat

text \<open>\<open>interface Results\<close>: four numbers. Every value the program stores in them is an
  integer literal, so \<open>number\<close> is modelled as \<open>int\<close>.\<close>

record Results =
  redArea :: int
  blueArea :: int
  redPerimeter :: int
  bluePerimeter :: int

definition processingSteps :: "ProcessingStep list" where
  "processingSteps =
     [\<lparr>label = ''Segmenting image...'', duration = 1500\<rparr>,
      \<lparr>label = ''Detecting red and blue regions...'', duration = 2000\<rparr>,
      \<lparr>label = ''Calculating area and perimeter...'', duration = 1500\<rparr>,
      \<lparr>label = ''Preparing result...'', duration = 1000\<rparr>]"

text \<open>A browser \<open>File\<close>: its name, its MIME type and its content. The content is kept as the
  raster of RGB samples the file encodes, so that a property of the picture (such as being all
  black) can be stated; the program itself never reads it.\<close>

record File =
  file_name :: string
  file_type :: string
  raster :: "(nat \<times> nat \<times> nat) list list"

text \<open>\<open>URL.createObjectURL\<close> returns a fresh opaque string; it is modelled as a tagged
  serial number.\<close>

datatype url = BlobUrl nat

text \<open>The component's state: the six \<open>useState\<close> cells, the DOM element behind
  \<open>fileInputRef\<close> (\<open>None\<close> while the \<open>input\<close> is not mounted, that is
  \<open>fileInputRef.current === null\<close>; otherwise its \<open>value\<close>), and what the JavaScript runtime
  holds for the component: the active \<open>setInterval\<close> timers of \<open>simulateUpload\<close>, the
  invocations of \<open>startProcessing\<close> suspended at their \<open>await\<close> (each with its loop index
  \<open>i\<close>), and the counters that make identifiers and object URLs fresh.\<close>

record state =
  phase :: Phase
  uploadProgress :: int
  currentStep :: nat
  selectedFile :: "File option"
  previewUrl :: "url option"
  results :: "Results option"
  fileInput :: "string option"
  intervals :: "nat list"
  tasks :: "(nat \<times> nat) list"
  nextId :: nat
  objectUrls :: nat

text \<open>The values given to \<open>useState\<close> and \<open>useRef\<close>, before the first render.\<close>

definition initial :: state where
  "initial = \<lparr>phase = Upload, uploadProgress = 0, currentStep = 0, selectedFile = None,
     previewUrl = None, results = None, fileInput = None, intervals = [], tasks = [],
     nextId = 0, objectUrls = 0\<rparr>"

subsection \<open>\<open>startProcessing\<close>\<close>

text \<open>The numbers \<open>startProcessing\<close> passes to \<open>setResults\<close>.\<close>

definition simulated_results :: Results where
  "simulated_results = \<lparr>redArea = 5321, blueArea = 4872, redPerimeter = 610, bluePerimeter = 580\<rparr>"

text \<open>The \<open>for\<close> loop of \<open>startProcessing\<close>, entered at index \<open>i\<close> by invocation \<open>tid\<close>:
  while \<open>i < processingSteps.length\<close> it sets \<open>currentStep\<close> and suspends at the \<open>await\<close>;
  past the last step it sets the results and the phase, and the invocation is over.\<close>

definition processing_loop :: "nat \<Rightarrow> nat \<Rightarrow> state \<Rightarrow> state" where
  "processing_loop tid i s =
     (if i < length processingSteps
      then s\<lparr>currentStep := i, tasks := AList.update tid i (tasks s)\<rparr>
      else s\<lparr>results := Some simulated_results, phase := Result,
             tasks := AList.delete tid (tasks s)\<rparr>)"

text \<open>The call of \<open>startProcessing\<close>: everything up to the first \<open>await\<close>.\<close>

definition startProcessing :: "state \<Rightarrow> state" where
  "startProcessing s =
     processing_loop (nextId s) 0
       (s\<lparr>phase := Processing, currentStep := 0, nextId := Suc (nextId s)\<rparr>)"

text \<open>The timer of an \<open>await\<close> fires: the invocation goes on with \<open>i++\<close>.\<close>

definition resume_processing :: "nat \<Rightarrow> state \<Rightarrow> state" where
  "resume_processing tid s =
     (case map_of (tasks s) tid of
        None \<Rightarrow> s
      | Some i \<Rightarrow> processing_loop tid (Suc i) s)"

text \<open>One invocation of \<open>startProcessing\<close> run from its call to its end with nothing else
  in between: the call, then one timer per processing step.\<close>

definition startProcessing_run :: "state \<Rightarrow> state" where
  "startProcessing_run s =
     (resume_processing (nextId s) ^^ length processingSteps) (startProcessing s)"

subsection \<open>\<open>simulateUpload\<close> and the event handlers\<close>

definition simulateUpload :: "File \<Rightarrow> state \<Rightarrow> state" where
  "simulateUpload file s =
     s\<lparr>phase := Upload, uploadProgress := 0,
       intervals := intervals s @ [nextId s], nextId := Suc (nextId s)\<rparr>"

text \<open>The callback given to \<open>setInterval\<close>, for the timer \<open>iid\<close>, with the updater it passes
  to \<open>setUploadProgress\<close>.\<close>

definition interval_tick :: "nat \<Rightarrow> state \<Rightarrow> state" where
  "interval_tick iid s =
     (if 100 \<le> uploadProgress s
      then (startProcessing (s\<lparr>intervals := removeAll iid (intervals s)\<rparr>))\<lparr>uploadProgress := 100\<rparr>
      else s\<lparr>uploadProgress := uploadProgress s + 10\<rparr>)"

text \<open>\<open>files?.[0]\<close> and \<open>files[0]\<close>: the first file, \<open>undefined\<close> when there is none.\<close>

definition first_file :: "File list \<Rightarrow> File option" where
  "first_file files = (case files of [] \<Rightarrow> None | f # _ \<Rightarrow> Some f)"

definition accepted :: "File \<Rightarrow> bool" where
  "accepted file = (file_type file = ''image/jpeg'' \<or> file_type file = ''image/png'')"

definition handleFileSelect :: "File list \<Rightarrow> state \<Rightarrow> state" where
  "handleFileSelect files s =
     (case first_file files of
        None \<Rightarrow> s
      | Some file \<Rightarrow>
          if accepted file
          then simulateUpload file
                 (s\<lparr>selectedFile := Some file, previewUrl := Some (BlobUrl (objectUrls s)),
                    objectUrls := Suc (objectUrls s)\<rparr>)
          else s)"

definition handleDrop :: "File list \<Rightarrow> state \<Rightarrow> state" where
  "handleDrop files s =
     (case first_file files of
        None \<Rightarrow> s
      | Some file \<Rightarrow>
          if accepted file
          then simulateUpload file
                 (s\<lparr>selectedFile := Some file, previewUrl := Some (BlobUrl (objectUrls s)),
                    objectUrls := Suc (objectUrls s)\<rparr>)
          else s)"

definition handleDragOver :: "state \<Rightarrow> state" where
  "handleDragOver s = s"

definition handleReset :: "state \<Rightarrow> state" where
  "handleReset s =
     (let s' = s\<lparr>phase := Upload, uploadProgress := 0, currentStep := 0, selectedFile := None,
                 previewUrl := None, results := None\<rparr>
      in case fileInput s' of
           None \<Rightarrow> s'
         | Some v \<Rightarrow> s'\<lparr>fileInput := Some ''''\<rparr>)"

subsection \<open>Rendering\<close>

text \<open>What the returned JSX shows, by phase. \<open>processingSteps[currentStep].label\<close> throws a
  \<open>TypeError\<close> when the index is out of range; with \<open>phase\<close> \<open>"result"\<close> and no results
  the card is empty.\<close>

datatype view =
    UploadView string "int option"
  | ProcessingView "url option" string nat nat
  | ResultView "url option" int int int int
  | EmptyCard
  | RenderError

definition render :: "state \<Rightarrow> view" where
  "render s =
     (case phase s of
        Upload \<Rightarrow>
          UploadView
            (case selectedFile s of Some f \<Rightarrow> file_name f | None \<Rightarrow> ''Drop your image here'')
            (if 0 < uploadProgress s \<and> uploadProgress s < 100 then Some (uploadProgress s) else None)
      | Processing \<Rightarrow>
          if currentStep s < length processingSteps
          then ProcessingView (previewUrl s) (label (processingSteps ! currentStep s))
                 (currentStep s + 1) (length processingSteps)
          else RenderError
      | Result \<Rightarrow>
          (case results s of
             Some r \<Rightarrow> ResultView (previewUrl s) (redArea r) (redPerimeter r) (blueArea r) (bluePerimeter r)
           | None \<Rightarrow> EmptyCard))"

text \<open>After a render React attaches the refs: the file \<open>input\<close> is inside
  \<open>{phase === "upload" && ...}\<close>, so it is mounted (a new element has the empty value) while
  the phase is \<open>"upload"\<close> and \<open>fileInputRef.current\<close> is \<open>null\<close> otherwise.\<close>

definition commit :: "state \<Rightarrow> state" where
  "commit s =
     s\<lparr>fileInput :=
         (if phase s = Upload
          then (case fileInput s of None \<Rightarrow> Some '''' | Some v \<Rightarrow> Some v)
          else None)\<rparr>"

definition init :: state where
  "init = commit initial"

subsection \<open>The component as a transition system\<close>

text \<open>What can happen to the mounted component: the user picks files in the dialog, drops
  files, drags over the drop zone or presses "Try Another Image"; an interval timer ticks; the
  timer of a suspended \<open>startProcessing\<close> fires.\<close>

datatype event =
    FileSelect "File list"
  | Drop "File list"
  | DragOver
  | Reset
  | IntervalTick nat
  | StepTimeout nat

text \<open>An event can happen only where the JSX offers it: the drop zone and the file input exist
  in the upload phase only, the reset button only in the result view; a timer fires only while
  it is pending.\<close>

fun enabled :: "event \<Rightarrow> state \<Rightarrow> bool" where
  "enabled (FileSelect files) s = (phase s = Upload)"
| "enabled (Drop files) s = (phase s = Upload)"
| "enabled DragOver s = (phase s = Upload)"
| "enabled Reset s = (phase s = Result \<and> results s \<noteq> None)"
| "enabled (IntervalTick iid) s = (iid \<in> set (intervals s))"
| "enabled (StepTimeout tid) s = (map_of (tasks s) tid \<noteq> None)"

text \<open>The browser reports the chosen file in the input's \<open>value\<close> before \<open>onChange\<close> runs.\<close>

definition chosen_value :: "File list \<Rightarrow> string" where
  "chosen_value files =
     (case first_file files of
        None \<Rightarrow> ''''
      | Some f \<Rightarrow> ''C:'' @ [CHR 0x5C] @ ''fakepath'' @ [CHR 0x5C] @ file_name f)"

fun handle :: "event \<Rightarrow> state \<Rightarrow> state" where
  "handle (FileSelect files) s =
     handleFileSelect files (s\<lparr>fileInput := map_option (\<lambda>_. chosen_value files) (fileInput s)\<rparr>)"
| "handle (Drop files) s = handleDrop files s"
| "handle DragOver s = handleDragOver s"
| "handle Reset s = handleReset s"
| "handle (IntervalTick iid) s = interval_tick iid s"
| "handle (StepTimeout tid) s = resume_processing tid s"

definition step :: "event \<Rightarrow> state \<Rightarrow> state option" where
  "step e s = (if enabled e s then Some (commit (handle e s)) else None)"

fun run :: "event list \<Rightarrow> state \<Rightarrow> state option" where
  "run [] s = Some s"
| "run (e # es) s = (case step e s of None \<Rightarrow> None | Some s' \<Rightarrow> run es s')"

text \<open>The cells the claims about the component's state list: the six \<open>useState\<close> values and
  the file input behind the ref.\<close>

definition component ::
  "state \<Rightarrow> Phase \<times> int \<times> nat \<times> File option \<times> url option \<times> Results option \<times> string option" where
  "component s =
     (phase s, uploadProgress s, currentStep s, selectedFile s, previewUrl s, results s, fileInput s)"

section \<open>The geometry measurer of the design\<close>

text \<open>Modelled from the spec: the repository's source holds the front end only, and neither
  \<open>Category\<close>, \<open>Region\<close> nor \<open>GeometryMeasurer.measure\<close> exists in it. The definitions below
  follow sections 3 and 4.3 of the design: a category is Red, Blue or None (written \<open>Neither\<close>
  here, as in section 2); a region has a category and its member coordinates.\<close>

datatype Category = Red | Blue | Neither

text \<open>Modelled from the spec: a grid coordinate (column, row), origin top-left; the source has
  no grid.\<close>

type_synonym cell = "int \<times> int"

text \<open>Modelled from the spec: the \<open>Region\<close> of section 3, absent from the source, with its
  category and its member coordinates; area and perimeter are what \<open>measure\<close> computes.\<close>

record Region =
  category :: Category
  members :: "cell list"

text \<open>Modelled from the spec: the four edge neighbours of a cell (4-connectivity, section 4.2),
  absent from the source.\<close>

definition edge_neighbours :: "cell \<Rightarrow> cell list" where
  "edge_neighbours c =
     [(fst c, snd c - 1), (fst c + 1, snd c), (fst c, snd c + 1), (fst c - 1, snd c)]"

text \<open>Modelled from the spec: "the count of that cell's 4 edge-neighbors that are NOT members of
  the same region"; the function is absent from the source. A position outside the grid is a
  member of no region, so it is counted.\<close>

definition exposed_edges :: "Region \<Rightarrow> cell \<Rightarrow> nat" where
  "exposed_edges r c = length (filter (\<lambda>n. n \<notin> set (members r)) (edge_neighbours c))"

text \<open>Modelled from the spec: \<open>measure(region) -> (area, perimeter)\<close>, absent from the source.
  Area is the number of member cells, perimeter the sum over the member cells of their exposed
  edges. The contract has no error result.\<close>

definition measure_region :: "Region \<Rightarrow> nat \<times> nat" where
  "measure_region r = (length (members r), sum_list (map (exposed_edges r) (members r)))"

text \<open>Modelled from the spec: the "solid N\<times>M rectangular region" of section 8, which the
  source does not have. The cells of the solid rectangle of \<open>n\<close> columns and \<open>m\<close> rows whose top-left cell is
  \<open>(x0, y0)\<close>, in row-major order.\<close>

definition solid_rectangle :: "int \<Rightarrow> int \<Rightarrow> nat \<Rightarrow> nat \<Rightarrow> cell list" where
  "solid_rectangle x0 y0 n m =
     map (\<lambda>(j, i). (x0 + int i, y0 + int j)) (List.product [0..<m] [0..<n])"

section \<open>Sample inputs\<close>

definition black_png :: File where
  "black_png = \<lparr>file_name = ''black.png'', file_type = ''image/png'',
     raster = [[(0, 0, 0), (0, 0, 0)], [(0, 0, 0), (0, 0, 0)]]\<rparr>"

definition photo_jpeg :: File where
  "photo_jpeg = \<lparr>file_name = ''photo.jpg'', file_type = ''image/jpeg'',
     raster = [[(255, 0, 0), (0, 0, 255)]]\<rparr>"

definition animation_gif :: File where
  "animation_gif = \<lparr>file_name = ''animation.gif'', file_type = ''image/gif'',
     raster = [[(255, 0, 0)]]\<rparr>"

text \<open>A picture is all black when every sample of its raster is \<open>(0, 0, 0)\<close>.\<close>

definition all_black :: "File \<Rightarrow> bool" where
  "all_black f = list_all (list_all (\<lambda>p. p = (0, 0, 0))) (raster f)"

text \<open>One file dropped on the fresh page and left alone: the drop starts interval 0; ten ticks
  bring the progress to 100, the eleventh calls \<open>startProcessing\<close> (invocation 1), whose
  four timers then fire.\<close>

definition upload_session :: "File \<Rightarrow> event list" where
  "upload_session f = Drop [f] # replicate 11 (IntervalTick 0) @ replicate 4 (StepTimeout 1)"

text \<open>Two files dropped one shortly after the other, the second while the first upload is
  shown: two intervals (0 and 1) tick in turn; at progress 100 each calls
  \<open>startProcessing\<close> at its next tick (invocations 2 and 3); their timers fire in turn, and
  the trace ends when invocation 2 has finished and invocation 3 still waits for its last
  timer.\<close>

definition racing_trace :: "event list" where
  "racing_trace =
     [Drop [photo_jpeg], Drop [black_png]] @
     concat (replicate 5 [IntervalTick 0, IntervalTick 1]) @
     [IntervalTick 0, IntervalTick 1,
      StepTimeout 2, StepTimeout 3, StepTimeout 2, StepTimeout 3,
      StepTimeout 2, StepTimeout 3, StepTimeout 2]"


section \<open>Properties of the front end\<close>

subsection \<open>What every handler preserves\<close>

lemmas handler_defs = handleFileSelect_def handleDrop_def handleDragOver_def handleReset_def
  interval_tick_def resume_processing_def startProcessing_def processing_loop_def
  simulateUpload_def

lemma handle_results:
  "results s = None \<or> results s = Some simulated_results \<Longrightarrow>
   results (handle e s) = None \<or> results (handle e s) = Some simulated_results"
  by (cases e) (auto simp: handler_defs Let_def split: option.splits)

lemma handle_result_phase:
  "(phase s = Result \<longrightarrow> results s \<noteq> None) \<Longrightarrow>
   (phase (handle e s) = Result \<longrightarrow> results (handle e s) \<noteq> None)"
  by (cases e) (auto simp: handler_defs Let_def split: option.splits if_splits)

lemma commit_fields [simp]:
  "results (commit s) = results s" "phase (commit s) = phase s"
  "previewUrl (commit s) = previewUrl s"
  by (simp_all add: commit_def)

lemma init_fields [simp]: "results init = None" "phase init = Upload"
  by (simp_all add: init_def initial_def commit_def)

lemma run_results:
  "run es s = Some s' \<Longrightarrow> results s = None \<or> results s = Some simulated_results \<Longrightarrow>
   results s' = None \<or> results s' = Some simulated_results"
proof (induction es arbitrary: s)
  case Nil
  then show ?case by simp
next
  case (Cons e es)
  from Cons.prems(1) obtain s1 where s1: "step e s = Some s1" and r: "run es s1 = Some s'"
    by (auto split: option.splits)
  from s1 have "s1 = commit (handle e s)" by (auto simp: step_def split: if_splits)
  with handle_results [OF Cons.prems(2), of e]
  have "results s1 = None \<or> results s1 = Some simulated_results" by simp
  with Cons.IH [OF r] show ?case .
qed

lemma run_result_phase:
  "run es s = Some s' \<Longrightarrow> (phase s = Result \<longrightarrow> results s \<noteq> None) \<Longrightarrow>
   (phase s' = Result \<longrightarrow> results s' \<noteq> None)"
proof (induction es arbitrary: s)
  case Nil
  then show ?case by simp
next
  case (Cons e es)
  from Cons.prems(1) obtain s1 where s1: "step e s = Some s1" and r: "run es s1 = Some s'"
    by (auto split: option.splits)
  from s1 have "s1 = commit (handle e s)" by (auto simp: step_def split: if_splits)
  with handle_result_phase [OF Cons.prems(2), of e]
  have "phase s1 = Result \<longrightarrow> results s1 \<noteq> None" by simp
  with Cons.IH [OF r] show ?case .
qed

text \<open>An invocation of \<open>startProcessing\<close> left alone ends in the result phase with the
  simulated numbers, and touches neither the file nor the preview.\<close>

lemma startProcessing_run_fields:
  "results (startProcessing_run s) = Some simulated_results"
  "phase (startProcessing_run s) = Result"
  "previewUrl (startProcessing_run s) = previewUrl s"
  "selectedFile (startProcessing_run s) = selectedFile s"
  by (simp_all add: startProcessing_run_def startProcessing_def resume_processing_def
      processing_loop_def processingSteps_def numeral_eq_Suc AList.update_conv')


subsection \<open>The report of \<open>startProcessing\<close>\<close>

text \<open>Claim C1. Running the analysis twice on the same input gives the same report: two
  executions of \<open>startProcessing\<close>, started in any two states that hold the same selected
  file, end with equal \<open>results\<close>; so does a second execution started where the first
  ended.\<close>

theorem startProcessing_deterministic:
  assumes "selectedFile s = selectedFile s'"
  shows "results (startProcessing_run s) = results (startProcessing_run s') \<and>
         results (startProcessing_run (startProcessing_run s)) = results (startProcessing_run s)"
  by (simp add: startProcessing_run_fields)

theorem startProcessing_deterministic_witness:
  "selectedFile (handleDrop [photo_jpeg] init) =
     selectedFile (handleDrop [photo_jpeg] (handleDrop [black_png] init)) \<and>
   results (startProcessing_run (handleDrop [photo_jpeg] init)) =
     results (startProcessing_run (handleDrop [photo_jpeg] (handleDrop [black_png] init))) \<and>
   results (startProcessing_run (startProcessing_run (handleDrop [photo_jpeg] init))) =
     results (startProcessing_run (handleDrop [photo_jpeg] init))"
proof -
  have same: "selectedFile (handleDrop [photo_jpeg] init) =
      selectedFile (handleDrop [photo_jpeg] (handleDrop [black_png] init))"
    by code_simp
  show ?thesis
    using same startProcessing_deterministic [OF same] by simp
qed

text \<open>Claim C2, as stated, fails: the all-black picture \<open>black_png\<close>, dropped on the fresh page
  and processed to the end, is reported with the totals 5321, 4872, 610 and 580, not with
  zeros.\<close>

theorem all_black_report_counterexample:
  "all_black black_png \<and>
   map_option results (run (upload_session black_png) init) =
     Some (Some \<lparr>redArea = 5321, blueArea = 4872, redPerimeter = 610, bluePerimeter = 580\<rparr>) \<and>
   map_option results (run (upload_session black_png) init) \<noteq>
     Some (Some \<lparr>redArea = 0, blueArea = 0, redPerimeter = 0, bluePerimeter = 0\<rparr>)"
  by code_simp

text \<open>Claim C2, amended. For every all-black picture selected, \<open>startProcessing\<close> reports
  the simulated totals \<open>redArea = 5321\<close>, \<open>blueArea = 4872\<close>, \<open>redPerimeter = 610\<close>,
  \<open>bluePerimeter = 580\<close>: the front end does not look at the pixels.\<close>

theorem all_black_report_simulated:
  assumes "all_black f" and "selectedFile s = Some f"
  shows "results (startProcessing_run s) =
     Some \<lparr>redArea = 5321, blueArea = 4872, redPerimeter = 610, bluePerimeter = 580\<rparr>"
  by (simp add: startProcessing_run_fields simulated_results_def)

theorem all_black_report_simulated_witness:
  "all_black black_png \<and> selectedFile (handleDrop [black_png] init) = Some black_png \<and>
   results (startProcessing_run (handleDrop [black_png] init)) =
     Some \<lparr>redArea = 5321, blueArea = 4872, redPerimeter = 610, bluePerimeter = 580\<rparr>"
proof -
  have black: "all_black black_png"
    by code_simp
  have sel: "selectedFile (handleDrop [black_png] init) = Some black_png"
    by code_simp
  show ?thesis
    using black sel all_black_report_simulated [OF black sel] by simp
qed

text \<open>Claim C3. The displayed output is a constant that does not depend on the file: from
  every state, whatever file is selected in it, \<open>startProcessing\<close> ends with \<open>results\<close>
  equal to \<open>{redArea: 5321, blueArea: 4872, redPerimeter: 610, bluePerimeter: 580}\<close>, in the
  result phase, and the view shows these four numbers.\<close>

theorem startProcessing_fixed_results:
  "results (startProcessing_run (s\<lparr>selectedFile := file\<rparr>)) =
     Some \<lparr>redArea = 5321, blueArea = 4872, redPerimeter = 610, bluePerimeter = 580\<rparr> \<and>
   phase (startProcessing_run (s\<lparr>selectedFile := file\<rparr>)) = Result \<and>
   render (startProcessing_run (s\<lparr>selectedFile := file\<rparr>)) =
     ResultView (previewUrl s) 5321 610 4872 580"
  by (simp add: startProcessing_run_fields simulated_results_def render_def)

text \<open>Claim C4. The report the view renders has exactly the four fields \<open>redArea\<close>,
  \<open>blueArea\<close>, \<open>redPerimeter\<close>, \<open>bluePerimeter\<close>, and whenever the page is in the result phase
  a report is there and the view shows its four numbers.\<close>

theorem rendered_results_complete:
  assumes "run es init = Some s" and "phase s = Result"
  shows "\<exists>r. results s = Some r \<and>
           r = \<lparr>redArea = redArea r, blueArea = blueArea r, redPerimeter = redPerimeter r,
                bluePerimeter = bluePerimeter r\<rparr> \<and>
           render s = ResultView (previewUrl s) (redArea r) (redPerimeter r) (blueArea r)
                        (bluePerimeter r)"
proof -
  from run_result_phase [OF assms(1)] assms(2) obtain r where r: "results s = Some r"
    by auto
  with assms(2) have "render s = ResultView (previewUrl s) (redArea r) (redPerimeter r)
      (blueArea r) (bluePerimeter r)"
    by (simp add: render_def)
  with r show ?thesis by simp
qed

theorem rendered_results_complete_witness:
  "\<exists>s. run (upload_session photo_jpeg) init = Some s \<and> phase s = Result \<and>
     (\<exists>r. results s = Some r \<and>
           r = \<lparr>redArea = redArea r, blueArea = blueArea r, redPerimeter = redPerimeter r,
                bluePerimeter = bluePerimeter r\<rparr> \<and>
           render s = ResultView (previewUrl s) (redArea r) (redPerimeter r) (blueArea r)
                        (bluePerimeter r))"
proof -
  have "map_option phase (run (upload_session photo_jpeg) init) = Some Result"
    by code_simp
  then obtain s where s: "run (upload_session photo_jpeg) init = Some s" and p: "phase s = Result"
    by auto
  from rendered_results_complete [OF s p] s p show ?thesis by blast
qed

subsection \<open>The phases\<close>

text \<open>Claim C5 does not hold of the code. Neither a second drop nor the reset cancels the
  timers already started, so a stale invocation of \<open>startProcessing\<close> can finish after a
  reset. At the end of \<open>racing_trace\<close> the page shows the result of invocation 2; the user
  presses "Try Another Image", which brings the phase to \<open>"upload"\<close>; then the last timer of
  invocation 3 fires, and the phase goes from \<open>"upload"\<close> straight to \<open>"result"\<close>, with no
  file selected and without passing through \<open>"processing"\<close>.\<close>

theorem stale_processing_upload_to_result:
  "map_option phase (run racing_trace init) = Some Result \<and>
   map_option phase (run (racing_trace @ [Reset]) init) = Some Upload \<and>
   map_option selectedFile (run (racing_trace @ [Reset]) init) = Some None \<and>
   map_option phase (run (racing_trace @ [Reset, StepTimeout 3]) init) = Some Result \<and>
   map_option render (run (racing_trace @ [Reset, StepTimeout 3]) init) =
     Some (ResultView None 5321 610 4872 580)"
  by code_simp




subsection \<open>The handlers\<close>

text \<open>Claim C8. When no file is given, or the first file's MIME type is neither
  \<open>"image/jpeg"\<close> nor \<open>"image/png"\<close>, \<open>handleFileSelect\<close> and \<open>handleDrop\<close> return the state
  they were given: no file stored, no preview URL created, no timer started.\<close>

theorem rejected_file_unchanged:
  assumes "case first_file files of
             None \<Rightarrow> True
           | Some f \<Rightarrow> file_type f \<noteq> ''image/jpeg'' \<and> file_type f \<noteq> ''image/png''"
  shows "handleFileSelect files s = s \<and> handleDrop files s = s"
  using assms
  by (auto simp: handleFileSelect_def handleDrop_def accepted_def split: option.splits)

theorem rejected_file_unchanged_witness:
  "handleFileSelect [animation_gif] init = init \<and> handleDrop [animation_gif] init = init \<and>
   handleFileSelect [] init = init \<and> handleDrop [] init = init"
proof -
  have gif: "case first_file [animation_gif] of
             None \<Rightarrow> True
           | Some f \<Rightarrow> file_type f \<noteq> ''image/jpeg'' \<and> file_type f \<noteq> ''image/png''"
    by (simp add: first_file_def animation_gif_def)
  have none: "case first_file [] of
             None \<Rightarrow> True
           | Some f \<Rightarrow> file_type f \<noteq> ''image/jpeg'' \<and> file_type f \<noteq> ''image/png''"
    by (simp add: first_file_def)
  show ?thesis
    using rejected_file_unchanged [OF gif, of init] rejected_file_unchanged [OF none, of init]
    by simp
qed

text \<open>Claim C10. From any state \<open>handleReset\<close> gives the initial values to the six state
  cells and clears the value of the file input if there is one; after the render that follows,
  the component state is the initial one. Applying it twice is applying it once.\<close>

theorem handleReset_initial_idempotent:
  "phase (handleReset s) = Upload \<and> uploadProgress (handleReset s) = 0 \<and>
   currentStep (handleReset s) = 0 \<and> selectedFile (handleReset s) = None \<and>
   previewUrl (handleReset s) = None \<and> results (handleReset s) = None \<and>
   fileInput (handleReset s) = map_option (\<lambda>v. '''') (fileInput s) \<and>
   component (commit (handleReset s)) = component init \<and>
   handleReset (handleReset s) = handleReset s"
  by (cases "fileInput s")
     (simp_all add: handleReset_def component_def commit_def init_def initial_def)

section \<open>Properties of the geometry measurer\<close>

text \<open>Claim C6. A region of exactly one cell, of any category and at any position, is
  measured with area 1 and perimeter 4; the measurement is a value, not an error.\<close>

theorem single_pixel_measure:
  "measure_region \<lparr>category = c, members = [p]\<rparr> = (1, 4)"
  by (simp add: measure_region_def exposed_edges_def edge_neighbours_def prod_eq_iff)

lemma shifted_range: "(\<lambda>i. x0 + int i) ` {0..<n} = {x0 ..< x0 + int n}"
proof (rule set_eqI)
  fix a
  show "a \<in> (\<lambda>i. x0 + int i) ` {0..<n} \<longleftrightarrow> a \<in> {x0 ..< x0 + int n}"
  proof
    assume "a \<in> (\<lambda>i. x0 + int i) ` {0..<n}"
    then show "a \<in> {x0 ..< x0 + int n}" by auto
  next
    assume "a \<in> {x0 ..< x0 + int n}"
    then have "a = x0 + int (nat (a - x0))" "nat (a - x0) \<in> {0..<n}" by auto
    then show "a \<in> (\<lambda>i. x0 + int i) ` {0..<n}" by (rule image_eqI)
  qed
qed

lemma set_solid_rectangle:
  "set (solid_rectangle x0 y0 n m) = {x0 ..< x0 + int n} \<times> {y0 ..< y0 + int m}"
proof -
  have "set (solid_rectangle x0 y0 n m) =
      (\<lambda>i. x0 + int i) ` {0..<n} \<times> (\<lambda>j. y0 + int j) ` {0..<m}"
    unfolding solid_rectangle_def by (auto simp: image_iff)
  then show ?thesis by (simp add: shifted_range)
qed

lemma distinct_solid_rectangle: "distinct (solid_rectangle x0 y0 n m)"
  unfolding solid_rectangle_def
  by (auto simp: distinct_map distinct_product inj_on_def)

text \<open>Inside a solid rectangle a cell exposes one edge for each side of the rectangle it
  lies on.\<close>

lemma exposed_in_rectangle:
  assumes S: "set (members r) = {x0 ..< x0 + int n} \<times> {y0 ..< y0 + int m}"
    and c: "(x, y) \<in> set (members r)"
  shows "exposed_edges r (x, y) =
     (if y = y0 then 1 else 0) + (if x = x0 + int n - 1 then 1 else 0) +
     (if y = y0 + int m - 1 then 1 else 0) + (if x = x0 then 1 else 0)"
  using c unfolding exposed_edges_def edge_neighbours_def S by auto

lemma rectangle_edge_sum:
  assumes n: "1 \<le> n" and m: "1 \<le> m"
  shows "(\<Sum>x = x0 ..< x0 + int n. \<Sum>y = y0 ..< y0 + int m.
            (if y = y0 then 1 else 0) + (if x = x0 + int n - 1 then 1 else 0) +
            (if y = y0 + int m - 1 then 1 else 0) + (if x = x0 then 1 else 0)) = 2 * (n + m)"
proof -
  let ?A = "{x0 ..< x0 + int n}" and ?B = "{y0 ..< y0 + int m}"
  have ya: "(\<Sum>y\<in>?B. if y = y0 then 1 else 0) = (1::nat)" using m by simp
  have yb: "(\<Sum>y\<in>?B. if y = y0 + int m - 1 then 1 else 0) = (1::nat)" using m by simp
  have xa: "(\<Sum>x\<in>?A. if x = x0 then m else 0) = m" using n by simp
  have xb: "(\<Sum>x\<in>?A. if x = x0 + int n - 1 then m else 0) = m" using n by simp
  have "(\<Sum>x\<in>?A. \<Sum>y\<in>?B. (if y = y0 then 1 else 0) + (if x = x0 + int n - 1 then 1 else 0) +
       (if y = y0 + int m - 1 then 1 else 0) + (if x = x0 then 1 else 0)) =
       (\<Sum>x\<in>?A. 1 + (if x = x0 + int n - 1 then m else 0) + 1 + (if x = x0 then m else 0))"
    by (rule sum.cong) (simp_all add: sum.distrib ya yb)
  also have "\<dots> = n + m + n + m"
    by (simp only: sum.distrib xa xb sum_constant card_atLeastLessThan_int) simp
  finally show ?thesis by simp
qed

lemma rectangle_measure:
  assumes d: "distinct (members r)"
    and S: "set (members r) = {x0 ..< x0 + int n} \<times> {y0 ..< y0 + int m}"
    and n: "1 \<le> n" and m: "1 \<le> m"
  shows "measure_region r = (n * m, 2 * (n + m))"
proof -
  let ?A = "{x0 ..< x0 + int n}" and ?B = "{y0 ..< y0 + int m}"
  have area: "length (members r) = n * m"
    using distinct_card [OF d] by (simp add: S)
  have "sum_list (map (exposed_edges r) (members r)) = sum (exposed_edges r) (?A \<times> ?B)"
    using sum_list_distinct_conv_sum_set [OF d, of "exposed_edges r"] by (simp add: S)
  also have "\<dots> = (\<Sum>(x, y)\<in>?A \<times> ?B.
       (if y = y0 then 1 else 0) + (if x = x0 + int n - 1 then 1 else 0) +
       (if y = y0 + int m - 1 then 1 else 0) + (if x = x0 then 1 else 0))"
    by (rule sum.cong) (auto simp: exposed_in_rectangle [OF S] S)
  also have "\<dots> = (\<Sum>x\<in>?A. \<Sum>y\<in>?B.
       (if y = y0 then 1 else 0) + (if x = x0 + int n - 1 then 1 else 0) +
       (if y = y0 + int m - 1 then 1 else 0) + (if x = x0 then 1 else 0))"
    by (simp add: sum.cartesian_product)
  also have "\<dots> = 2 * (n + m)"
    by (rule rectangle_edge_sum [OF n m])
  finally show ?thesis by (simp add: measure_region_def area)
qed

text \<open>Claim C7. A solid rectangle of \<open>n\<close> by \<open>m\<close> cells (\<open>n, m \<ge> 1\<close>), placed anywhere and
  with its cells listed in any order, is measured with area \<open>n * m\<close> and perimeter
  \<open>2 * (n + m)\<close>, the perimeter being the number of member-cell edges whose neighbour is not
  a member.\<close>

theorem solid_rectangle_measure:
  assumes "1 \<le> n" and "1 \<le> m"
    and "distinct (members r)"
    and "set (members r) = set (solid_rectangle x0 y0 n m)"
  shows "measure_region r = (n * m, 2 * (n + m))"
  using rectangle_measure [OF assms(3) _ assms(1,2), of x0 y0] assms(4)
  by (simp add: set_solid_rectangle)

theorem solid_rectangle_measure_witness:
  "measure_region \<lparr>category = Red, members = solid_rectangle 0 0 2 3\<rparr> = (6, 10) \<and>
   measure_region \<lparr>category = Blue, members = rev (solid_rectangle 5 7 1 1)\<rparr> = (1, 4)"
proof -
  have a: "measure_region \<lparr>category = Red, members = solid_rectangle 0 0 2 3\<rparr> = (2 * 3, 2 * (2 + 3))"
    by (rule solid_rectangle_measure) (simp_all add: distinct_solid_rectangle)
  have b: "measure_region \<lparr>category = Blue, members = rev (solid_rectangle 5 7 1 1)\<rparr> = (1 * 1, 2 * (1 + 1))"
    by (rule solid_rectangle_measure) (simp_all add: distinct_solid_rectangle)
  from a b show ?thesis by simp
qed

end
